theory Spec2Isabelle
  imports Complex_Main "HOL-Library.AList" "HOL-Library.Sublist"
begin

section \<open>Python values, exceptions and printed output\<close>

text \<open>
  The module \<open>pkasolver/data.py\<close> is embedded function by function. Python exceptions are
  values of the type \<open>error\<close>; a function that can raise returns \<open>error + 'a\<close> with
  \<open>Inl\<close> for the raised exception. Every exception below is a subclass of Python's
  \<open>Exception\<close>. The string carried by an exception is the argument it was built with.
\<close>

datatype error =
    KeyError string
  | RuntimeError string
  | ValueError string
  | TypeError string
  | OverflowError string
  | AttributeError string
  | AssertionError string
  | ArgumentError string

text \<open>
  A value read from a property bag or from a cell of a data frame: RDKit's
  \<open>GetPropsAsDict\<close> and pandas hand out ints, floats and strings. Floats are modelled as
  reals.
\<close>

datatype pyval = PInt int | PFloat real | PStr string

text \<open>
  \<open>str(e)\<close> of an exception: the argument for most exceptions, the \<open>repr\<close> of the key for
  a \<open>KeyError\<close> (the key between apostrophes, for a key without apostrophes or escapes).
\<close>

definition py_repr_str :: "string \<Rightarrow> string" where
  "py_repr_str s = CHR 0x27 # s @ [CHR 0x27]"

fun message :: "error \<Rightarrow> string" where
  "message (KeyError k) = py_repr_str k"
| "message (RuntimeError s) = s"
| "message (ValueError s) = s"
| "message (TypeError s) = s"
| "message (OverflowError s) = s"
| "message (AttributeError s) = s"
| "message (AssertionError s) = s"
| "message (ArgumentError s) = s"

text \<open>
  Each call of \<open>print\<close> in the module is one entry of the output, in the order of the calls;
  the entry keeps the values that the call formats.
\<close>

datatype printed =
    Could_not_create_conjugate nat
  | Print_error error
  | Prot_eq_deprot
  | No_pKa_found "(string \<times> pyval) list"
  | No_reaction_center "(string \<times> pyval) list"
  | Print_props "(string \<times> pyval) list"
  | Print_smiles string
  | Mol_is_failing error
  | Generating_paired bool
  | Generating_form string

section \<open>Molecules\<close>

text \<open>
  An RDKit molecule is read-only here. The fields are named after the accessors that the
  module calls. \<open>MolToSmiles\<close> is the canonical SMILES string that \<open>Chem.MolToSmiles\<close>
  renders for the molecule.
\<close>

record atom =
  GetFormalCharge :: int
  GetAtomicNum :: nat

record bond =
  GetBeginAtomIdx :: nat
  GetEndAtomIdx :: nat
  GetBondType :: nat

record mol =
  GetAtoms :: "atom list"
  GetBonds :: "bond list"
  GetPropsAsDict :: "(string \<times> pyval) list"
  MolToSmiles :: string

text \<open>
  \<open>mol.GetAtomWithIdx(i)\<close>: the argument is converted to an unsigned int of 32 bits, so
  a negative index and an index of \<open>2^32\<close> or more raise \<open>OverflowError\<close>; an index past
  the last atom raises a \<open>RuntimeError\<close> (range error), and a value that is not an int an
  \<open>ArgumentError\<close>.
\<close>

definition GetAtomWithIdx :: "mol \<Rightarrow> pyval \<Rightarrow> error + atom" where
  "GetAtomWithIdx m v =
     (case v of
        PInt i \<Rightarrow>
          if i < 0 then Inl (OverflowError ''can't convert negative value to unsigned int'')
          else if 4294967296 \<le> i
          then Inl (OverflowError ''bad numeric conversion: positive overflow'')
          else if nat i < length (GetAtoms m) then Inr (GetAtoms m ! nat i)
          else Inl (RuntimeError ''Range Error'')
      | PFloat r \<Rightarrow> Inl (ArgumentError ''Python argument types did not match C++ signature'')
      | PStr s \<Rightarrow> Inl (ArgumentError ''Python argument types did not match C++ signature''))"

section \<open>External collaborators and the constants module\<close>

text \<open>
  The module imports \<open>create_conjugate\<close> from \<open>pkasolver.chem\<close> and the registries
  \<open>NODE_FEATURES\<close>, \<open>EDGE_FEATURES\<close>, \<open>node_feat_values\<close> and \<open>edge_feat_values\<close> from
  \<open>pkasolver.constants\<close>; neither file is part of the sources at hand, so they are
  parameters. A dict is an association list in insertion order. A feature function returns
  a scalar or a (nested) sequence, or raises.

  \<open>float32\<close> is the rounding of a float to 32 bits that \<open>torch.tensor(..., dtype=torch.float)\<close>
  performs; \<open>int_of_str\<close> and \<open>float_of_str\<close> are what Python's \<open>int\<close> and \<open>float\<close> make
  of a string (\<open>None\<close> when they raise \<open>ValueError\<close>).
\<close>

datatype fval = Num real | Seq "fval list"

record externals =
  create_conjugate :: "mol \<Rightarrow> pyval \<Rightarrow> pyval \<Rightarrow> bool option \<Rightarrow> error + mol"
  NODE_FEATURES :: "(string \<times> (atom \<Rightarrow> pyval \<Rightarrow> error + fval)) list"
  EDGE_FEATURES :: "(string \<times> (bond \<Rightarrow> error + fval)) list"
  node_feat_values :: "(string \<times> pyval list) list"
  edge_feat_values :: "(string \<times> pyval list) list"
  float32 :: "real \<Rightarrow> real"
  int_of_str :: "string \<Rightarrow> int option"
  float_of_str :: "string \<Rightarrow> real option"

section \<open>Feature width: \<open>calculate_nr_of_features\<close>\<close>

text \<open>
  The loop \<open>for feat in feature_list: i_n += len(vals[feat])\<close>; the subscript raises
  \<open>KeyError\<close> for a missing key.
\<close>

fun add_lens :: "(string \<times> pyval list) list \<Rightarrow> string list \<Rightarrow> nat \<Rightarrow> error + nat" where
  "add_lens vals [] i_n = Inr i_n"
| "add_lens vals (feat # rest) i_n =
     (case map_of vals feat of
        None \<Rightarrow> Inl (KeyError feat)
      | Some d \<Rightarrow> add_lens vals rest (i_n + length d))"

definition calculate_nr_of_features :: "externals \<Rightarrow> string list \<Rightarrow> error + nat" where
  "calculate_nr_of_features ext feature_list =
     (if list_all (\<lambda>elem. map_of (node_feat_values ext) elem \<noteq> None) feature_list
      then add_lens (node_feat_values ext) feature_list 0
      else if list_all (\<lambda>elem. map_of (edge_feat_values ext) elem \<noteq> None) feature_list
      then add_lens (edge_feat_values ext) feature_list 0
      else Inl (RuntimeError []))"

text \<open>
  The words of the specification about a selection: a name is node-only, edge-only or
  unknown to both vocabularies; the size of a name's value domain in a vocabulary.
\<close>

definition node_only :: "externals \<Rightarrow> string \<Rightarrow> bool" where
  "node_only ext name \<longleftrightarrow>
     map_of (node_feat_values ext) name \<noteq> None \<and> map_of (edge_feat_values ext) name = None"

definition edge_only :: "externals \<Rightarrow> string \<Rightarrow> bool" where
  "edge_only ext name \<longleftrightarrow>
     map_of (edge_feat_values ext) name \<noteq> None \<and> map_of (node_feat_values ext) name = None"

definition unknown_name :: "externals \<Rightarrow> string \<Rightarrow> bool" where
  "unknown_name ext name \<longleftrightarrow>
     map_of (node_feat_values ext) name = None \<and> map_of (edge_feat_values ext) name = None"

definition mixes_node_and_edge :: "externals \<Rightarrow> string list \<Rightarrow> bool" where
  "mixes_node_and_edge ext feature_list \<longleftrightarrow>
     list_ex (node_only ext) feature_list \<and> list_ex (edge_only ext) feature_list"

definition domain_size :: "(string \<times> pyval list) list \<Rightarrow> string \<Rightarrow> nat" where
  "domain_size vals name = (case map_of vals name of None \<Rightarrow> 0 | Some d \<Rightarrow> length d)"

definition selected_vocabulary :: "externals \<Rightarrow> string list \<Rightarrow> (string \<times> pyval list) list" where
  "selected_vocabulary ext feature_list =
     (if list_ex (edge_only ext) feature_list then edge_feat_values ext
      else node_feat_values ext)"

section \<open>Graph builder\<close>

text \<open>
  \<open>pandas.core.common.flatten\<close>: every element that is itself a sequence is flattened in
  place, recursively.
\<close>

fun flatten_val :: "fval \<Rightarrow> real list" where
  "flatten_val (Num r) = [r]"
| "flatten_val (Seq vs) = concat (map flatten_val vs)"

definition flatten :: "fval list \<Rightarrow> real list" where
  "flatten line = concat (map flatten_val line)"

text \<open>
  \<open>torch.tensor(np.array(rows), dtype=torch.float)\<close>: a tensor is modelled as the list of
  its rows, each entry rounded to 32 bits. Rows of different lengths do not make an array:
  the construction raises.
\<close>

definition float_tensor :: "externals \<Rightarrow> real list list \<Rightarrow> error + real list list" where
  "float_tensor ext rows =
     (case rows of
        [] \<Rightarrow> Inr []
      | r # rs \<Rightarrow>
          if list_all (\<lambda>r'. length r' = length r) rs
          then Inr (map (map (float32 ext)) rows)
          else Inl (ValueError ''inhomogeneous shape''))"

text \<open>The inner loop of \<open>make_nodes\<close>: \<open>node.append(feat(atom, atom_idx))\<close>.\<close>

fun node_features ::
  "(atom \<Rightarrow> pyval \<Rightarrow> error + fval) list \<Rightarrow> atom \<Rightarrow> pyval \<Rightarrow> error + fval list" where
  "node_features [] a atom_idx = Inr []"
| "node_features (feat # feats) a atom_idx =
     (case feat a atom_idx of
        Inl e \<Rightarrow> Inl e
      | Inr v \<Rightarrow>
          (case node_features feats a atom_idx of
             Inl e \<Rightarrow> Inl e
           | Inr node \<Rightarrow> Inr (v # node)))"

text \<open>The outer loop of \<open>make_nodes\<close> over \<open>mol.GetAtoms()\<close>.\<close>

fun node_rows ::
  "(atom \<Rightarrow> pyval \<Rightarrow> error + fval) list \<Rightarrow> atom list \<Rightarrow> pyval \<Rightarrow> error + real list list" where
  "node_rows feats [] atom_idx = Inr []"
| "node_rows feats (a # rest) atom_idx =
     (case node_features feats a atom_idx of
        Inl e \<Rightarrow> Inl e
      | Inr node \<Rightarrow>
          (case node_rows feats rest atom_idx of
             Inl e \<Rightarrow> Inl e
           | Inr x \<Rightarrow> Inr (flatten node # x)))"

definition make_nodes ::
  "externals \<Rightarrow> mol \<Rightarrow> pyval \<Rightarrow> (string \<times> (atom \<Rightarrow> pyval \<Rightarrow> error + fval)) list
     \<Rightarrow> error + real list list" where
  "make_nodes ext m atom_idx n_features =
     (case node_rows (map snd n_features) (GetAtoms m) atom_idx of
        Inl e \<Rightarrow> Inl e
      | Inr x \<Rightarrow> float_tensor ext x)"

text \<open>The inner loop of \<open>make_edges_and_attr\<close>: \<open>edge.append(feat(bond))\<close>.\<close>

fun edge_features :: "(bond \<Rightarrow> error + fval) list \<Rightarrow> bond \<Rightarrow> error + fval list" where
  "edge_features [] b = Inr []"
| "edge_features (feat # feats) b =
     (case feat b of
        Inl e \<Rightarrow> Inl e
      | Inr v \<Rightarrow>
          (case edge_features feats b of
             Inl e \<Rightarrow> Inl e
           | Inr edge \<Rightarrow> Inr (v # edge)))"

text \<open>
  The loop over \<open>mol.GetBonds()\<close>. An element of \<open>edges\<close> is the 2 x 1 array
  \<open>[[top], [bottom]]\<close>, modelled as the pair \<open>(top, bottom)\<close>.
\<close>

fun edge_loop ::
  "(bond \<Rightarrow> error + fval) list \<Rightarrow> bond list \<Rightarrow> error + ((nat \<times> nat) list \<times> real list list)" where
  "edge_loop feats [] = Inr ([], [])"
| "edge_loop feats (b # rest) =
     (case edge_features feats b of
        Inl e \<Rightarrow> Inl e
      | Inr edge \<Rightarrow>
          (case edge_loop feats rest of
             Inl e \<Rightarrow> Inl e
           | Inr (edges, edge_attr) \<Rightarrow>
               Inr ((GetBeginAtomIdx b, GetEndAtomIdx b) # (GetEndAtomIdx b, GetBeginAtomIdx b) # edges,
                    flatten edge # flatten edge # edge_attr)))"

text \<open>
  \<open>torch.tensor(np.hstack(np.array(edges)), dtype=torch.long)\<close>: the 2 x 1 arrays side by
  side, a tensor of two rows. \<open>np.hstack\<close> of no array at all raises \<open>ValueError\<close>.
\<close>

definition hstack_long_tensor :: "(nat \<times> nat) list \<Rightarrow> error + nat list list" where
  "hstack_long_tensor edges =
     (if edges = [] then Inl (ValueError ''need at least one array to concatenate'')
      else Inr [map fst edges, map snd edges])"

definition make_edges_and_attr ::
  "externals \<Rightarrow> mol \<Rightarrow> (string \<times> (bond \<Rightarrow> error + fval)) list
     \<Rightarrow> error + (nat list list \<times> real list list)" where
  "make_edges_and_attr ext m e_features =
     (case edge_loop (map snd e_features) (GetBonds m) of
        Inl e \<Rightarrow> Inl e
      | Inr (edges, edge_attr) \<Rightarrow>
          (case hstack_long_tensor edges of
             Inl e \<Rightarrow> Inl e
           | Inr edge_index \<Rightarrow>
               (case float_tensor ext edge_attr of
                  Inl e \<Rightarrow> Inl e
                | Inr edge_attr_t \<Rightarrow> Inr (edge_index, edge_attr_t))))"

text \<open>
  \<open>{x: all_features[x] for x in feat_list}\<close>: a key met again keeps its place in the dict;
  a name that is not a key of \<open>all_features\<close> raises \<open>KeyError\<close>.
\<close>

fun features_dict_loop ::
  "(string \<times> 'f) list \<Rightarrow> string list \<Rightarrow> (string \<times> 'f) list \<Rightarrow> error + (string \<times> 'f) list" where
  "features_dict_loop all_features [] acc = Inr acc"
| "features_dict_loop all_features (x # rest) acc =
     (case map_of all_features x of
        None \<Rightarrow> Inl (KeyError x)
      | Some f \<Rightarrow> features_dict_loop all_features rest (AList.update x f acc))"

definition make_features_dicts ::
  "(string \<times> 'f) list \<Rightarrow> string list \<Rightarrow> error + (string \<times> 'f) list" where
  "make_features_dicts all_features feat_list = features_dict_loop all_features feat_list []"

definition mol_to_features ::
  "externals \<Rightarrow> mol \<Rightarrow> pyval \<Rightarrow> (string \<times> (atom \<Rightarrow> pyval \<Rightarrow> error + fval)) list
     \<Rightarrow> (string \<times> (bond \<Rightarrow> error + fval)) list
     \<Rightarrow> error + (real list list \<times> nat list list \<times> real list list \<times> int)" where
  "mol_to_features ext m atom_idx n_features e_features =
     (case make_nodes ext m atom_idx n_features of
        Inl e \<Rightarrow> Inl e
      | Inr nodes \<Rightarrow>
          (case make_edges_and_attr ext m e_features of
             Inl e \<Rightarrow> Inl e
           | Inr (edge_index, edge_attr) \<Rightarrow>
               Inr (nodes, edge_index, edge_attr, sum_list (map GetFormalCharge (GetAtoms m)))))"

section \<open>Samples: \<open>Data\<close> and \<open>PairData\<close>\<close>


text \<open>
  \<open>PairData\<close>: the constructor takes tensors or \<open>None\<close>. \<open>PairData_x\<close>,
  \<open>PairData_reference_value\<close>, \<open>PairData_ID\<close> and \<open>pka_type\<close> are the attributes \<open>x\<close>,
  \<open>reference_value\<close>, \<open>ID\<close> and \<open>pka_type\<close> that the module attaches after construction.
\<close>

record PairData =
  edge_index_p :: "nat list list option"
  edge_index_d :: "nat list list option"
  x_p :: "real list list option"
  x_d :: "real list list option"
  edge_attr_p :: "real list list option"
  edge_attr_d :: "real list list option"
  charge_prot :: int
  charge_deprot :: int
  num_nodes :: "nat option"
  PairData_x :: "real option"
  PairData_reference_value :: "real list option"
  PairData_ID :: "pyval option"
  pka_type :: "pyval option"

definition PairData_init ::
  "nat list list option \<Rightarrow> real list list option \<Rightarrow> real list list option \<Rightarrow> int
     \<Rightarrow> nat list list option \<Rightarrow> real list list option \<Rightarrow> real list list option \<Rightarrow> int
     \<Rightarrow> PairData" where
  "PairData_init ei_p ea_p xp charge_p ei_d ea_d xd charge_d =
     \<lparr> edge_index_p = ei_p, edge_index_d = ei_d,
       x_p = xp, x_d = xd,
       edge_attr_p = ea_p, edge_attr_d = ea_d,
       charge_prot = charge_p, charge_deprot = charge_d,
       num_nodes = (case xp of None \<Rightarrow> None | Some t \<Rightarrow> Some (length t)),
       PairData_x = None, PairData_reference_value = None, PairData_ID = None,
       pka_type = None \<rparr>"

text \<open>
  \<open>PairData.__inc__\<close>. \<open>x.size(0)\<close> is the number of rows of the tensor \<open>x\<close>; on \<open>None\<close>
  the attribute access raises. The method of the parent class \<open>Data\<close> is a parameter.
\<close>

definition PairData_inc ::
  "(PairData \<Rightarrow> string \<Rightarrow> 'v \<Rightarrow> error + nat) \<Rightarrow> PairData \<Rightarrow> string \<Rightarrow> 'v \<Rightarrow> error + nat" where
  "PairData_inc super_inc self key val =
     (if key = ''edge_index_p'' then
        (case x_p self of
           None \<Rightarrow> Inl (AttributeError ''size'')
         | Some t \<Rightarrow> Inr (length t))
      else if key = ''edge_index_d'' then
        (case x_d self of
           None \<Rightarrow> Inl (AttributeError ''size'')
         | Some t \<Rightarrow> Inr (length t))
      else super_inc self key val)"

definition mol_to_paired_mol_data ::
  "externals \<Rightarrow> mol \<Rightarrow> mol \<Rightarrow> pyval \<Rightarrow> (string \<times> (atom \<Rightarrow> pyval \<Rightarrow> error + fval)) list
     \<Rightarrow> (string \<times> (bond \<Rightarrow> error + fval)) list \<Rightarrow> error + PairData" where
  "mol_to_paired_mol_data ext prot deprot atom_idx n_features e_features =
     (case mol_to_features ext prot atom_idx n_features e_features of
        Inl e \<Rightarrow> Inl e
      | Inr (node_p, ei_p, ea_p, charge_p) \<Rightarrow>
          (case mol_to_features ext deprot atom_idx n_features e_features of
             Inl e \<Rightarrow> Inl e
           | Inr (node_d, ei_d, ea_d, charge_d) \<Rightarrow>
               Inr (PairData_init (Some ei_p) (Some ea_p) (Some node_p) charge_p
                      (Some ei_d) (Some ea_d) (Some node_d) charge_d)))"


section \<open>Data frames and the conjugate pair resolver\<close>













section \<open>Dataset materializer\<close>

text \<open>
  \<open>torch.tensor(v, dtype=torch.float32)\<close> of one value and
  \<open>torch.tensor([v], dtype=torch.float32)\<close> of a list of one value; a string is refused.
\<close>

definition float32_scalar :: "externals \<Rightarrow> pyval \<Rightarrow> error + real" where
  "float32_scalar ext v =
     (case v of
        PInt i \<Rightarrow> Inr (float32 ext (of_int i))
      | PFloat r \<Rightarrow> Inr (float32 ext r)
      | PStr s \<Rightarrow> Inl (TypeError ''invalid data type str''))"






section \<open>Single annotated molecule: \<open>make_paired_pyg_data_from_mol\<close>\<close>

text \<open>
  The second half of the function, from the call of \<open>create_conjugate\<close> on: \<open>props\<close>,
  \<open>pka\<close> and \<open>atom_idx\<close> are the local variables the first half has set. An
  \<open>AssertionError\<close> of \<open>create_conjugate\<close> is printed and raised again; any other exception
  passes through.
\<close>

definition paired_data_with_center ::
  "externals \<Rightarrow> mol \<Rightarrow> (string \<times> pyval) list \<Rightarrow> pyval \<Rightarrow> pyval
     \<Rightarrow> (string \<times> (atom \<Rightarrow> pyval \<Rightarrow> error + fval)) list
     \<Rightarrow> (string \<times> (bond \<Rightarrow> error + fval)) list \<Rightarrow> printed list \<times> (error + PairData)" where
  "paired_data_with_center ext m props pka atom_idx selected_node_features selected_edge_features =
     (case create_conjugate ext m atom_idx pka None of
        Inl e \<Rightarrow>
          (case e of
             AssertionError s \<Rightarrow> ([Mol_is_failing e], Inl e)
           | _ \<Rightarrow> ([], Inl e))
      | Inr conj_mol \<Rightarrow>
          (case GetAtomWithIdx m atom_idx of
             Inl e \<Rightarrow> ([], Inl e)
           | Inr a_mol \<Rightarrow>
               (case GetAtomWithIdx conj_mol atom_idx of
                  Inl e \<Rightarrow> ([], Inl e)
                | Inr a_conj \<Rightarrow>
                    (let (prot, deprot) =
                           (if GetFormalCharge a_mol > GetFormalCharge a_conj
                            then (m, conj_mol) else (conj_mol, m))
                     in case mol_to_paired_mol_data ext prot deprot atom_idx
                               selected_node_features selected_edge_features of
                          Inl e \<Rightarrow> ([], Inl e)
                        | Inr pd \<Rightarrow>
                            (case float32_scalar ext pka of
                               Inl e \<Rightarrow> ([], Inl e)
                             | Inr t \<Rightarrow>
                                 ([], Inr (pd\<lparr>
                                    PairData_x := Some t,
                                    pka_type := Some
                                      (case map_of props ''pka_number'' of
                                         Some v \<Rightarrow> v
                                       | None \<Rightarrow>
                                           (case map_of props ''marvin_pKa_type'' of
                                              Some v \<Rightarrow> v
                                            | None \<Rightarrow> PStr [])),
                                    PairData_ID := Some
                                      (case map_of props ''ID'' of
                                         Some v \<Rightarrow> v
                                       | None \<Rightarrow> PStr [])\<rparr>)))))))"

text \<open>
  The first half: the lookup of \<open>pKa\<close> (a missing key is printed about and the
  \<open>KeyError\<close> raised again), then of the reaction centre under \<open>epik_atom\<close> and then
  \<open>marvin_atom\<close>.
\<close>

definition make_paired_pyg_data_from_mol ::
  "externals \<Rightarrow> mol \<Rightarrow> (string \<times> (atom \<Rightarrow> pyval \<Rightarrow> error + fval)) list
     \<Rightarrow> (string \<times> (bond \<Rightarrow> error + fval)) list \<Rightarrow> printed list \<times> (error + PairData)" where
  "make_paired_pyg_data_from_mol ext m selected_node_features selected_edge_features =
     (let props = GetPropsAsDict m
      in case map_of props ''pKa'' of
           None \<Rightarrow>
             ([No_pKa_found props, Print_props props, Print_smiles (MolToSmiles m)],
              Inl (KeyError ''pKa''))
         | Some pka \<Rightarrow>
             (case map_of props ''epik_atom'' of
                Some atom_idx \<Rightarrow>
                  paired_data_with_center ext m props pka atom_idx
                    selected_node_features selected_edge_features
              | None \<Rightarrow>
                  (case map_of props ''marvin_atom'' of
                     Some atom_idx \<Rightarrow>
                       paired_data_with_center ext m props pka atom_idx
                         selected_node_features selected_edge_features
                   | None \<Rightarrow>
                       ([No_reaction_center props, Print_props props,
                         Print_smiles (MolToSmiles m)],
                        Inl (RuntimeError [])))))"

section \<open>Words of the specification\<close>




section \<open>Example inputs\<close>

text \<open>
  A small vocabulary in the style of \<open>pkasolver.constants\<close>: one-hot node features over
  the formal charge and a flag for the reaction centre, a one-hot edge feature over the
  bond type. The example \<open>create_conjugate\<close> removes a proton from the atom at the index
  (its formal charge drops by one; every other field of the molecule stays as it is) and
  refuses, by an assertion, a carbon atom and an index that is not an atom of the molecule.
\<close>

definition one_hot :: "int \<Rightarrow> int list \<Rightarrow> fval" where
  "one_hot v domain = Seq (map (\<lambda>s. Num (if v = s then 1 else 0)) domain)"

definition feat_formal_charge :: "atom \<Rightarrow> pyval \<Rightarrow> error + fval" where
  "feat_formal_charge a marvin = Inr (one_hot (GetFormalCharge a) [-1, 0, 1])"

definition feat_is_carbon :: "atom \<Rightarrow> pyval \<Rightarrow> error + fval" where
  "feat_is_carbon a marvin = Inr (Num (if GetAtomicNum a = 6 then 1 else 0))"

definition feat_bond_type :: "bond \<Rightarrow> error + fval" where
  "feat_bond_type b = Inr (one_hot (int (GetBondType b)) [1, 2, 3])"

definition deprotonate_at :: "mol \<Rightarrow> pyval \<Rightarrow> pyval \<Rightarrow> bool option \<Rightarrow> error + mol" where
  "deprotonate_at m idx pka ignore_danger =
     (case GetAtomWithIdx m idx of
        Inl e \<Rightarrow> Inl (AssertionError ''no such atom'')
      | Inr a \<Rightarrow>
          (case idx of
             PInt i \<Rightarrow>
               if GetAtomicNum a = 6 then Inl (AssertionError ''carbon is not ionizable'')
               else Inr (m\<lparr>GetAtoms :=
                           (GetAtoms m)[nat i := a\<lparr>GetFormalCharge := GetFormalCharge a - 1\<rparr>]\<rparr>)
           | _ \<Rightarrow> Inl (AssertionError ''no such atom'')))"

definition ext0 :: externals where
  "ext0 =
     \<lparr> create_conjugate = deprotonate_at,
       NODE_FEATURES = [(''formal_charge'', feat_formal_charge), (''is_carbon'', feat_is_carbon)],
       EDGE_FEATURES = [(''bond_type'', feat_bond_type)],
       node_feat_values =
         [(''formal_charge'', [PInt (-1), PInt 0, PInt 1]), (''is_carbon'', [PInt 1])],
       edge_feat_values = [(''bond_type'', [PInt 1, PInt 2, PInt 3])],
       float32 = (\<lambda>r. r),
       int_of_str = (\<lambda>s. None),
       float_of_str = (\<lambda>s. None) \<rparr>"

text \<open>
  Ethanol and ammonia as the toolkit hands them over (hydrogens implicit): ethanol has
  three atoms and two bonds, ammonia one atom and no bond.
\<close>

definition ethanol :: mol where
  "ethanol =
     \<lparr> GetAtoms = [\<lparr>GetFormalCharge = 0, GetAtomicNum = 6\<rparr>,
                   \<lparr>GetFormalCharge = 0, GetAtomicNum = 6\<rparr>,
                   \<lparr>GetFormalCharge = 0, GetAtomicNum = 8\<rparr>],
       GetBonds = [\<lparr>GetBeginAtomIdx = 0, GetEndAtomIdx = 1, GetBondType = 1\<rparr>,
                   \<lparr>GetBeginAtomIdx = 1, GetEndAtomIdx = 2, GetBondType = 1\<rparr>],
       GetPropsAsDict = [(''pKa'', PFloat 16), (''marvin_atom'', PInt 2), (''ID'', PStr ''ethanol'')],
       MolToSmiles = ''CCO'' \<rparr>"

definition ammonia :: mol where
  "ammonia =
     \<lparr> GetAtoms = [\<lparr>GetFormalCharge = 0, GetAtomicNum = 7\<rparr>],
       GetBonds = [],
       GetPropsAsDict = [(''pKa'', PFloat 9), (''marvin_atom'', PInt 0)],
       MolToSmiles = ''N'' \<rparr>"

definition pd0 :: PairData where
  "pd0 = PairData_init (Some [[0, 1], [1, 0]]) (Some [[1, 0, 0], [1, 0, 0]])
           (Some [[0, 1, 0, 0], [0, 1, 0, 0]]) 0
           (Some [[0, 1, 1, 2], [1, 0, 2, 1]]) (Some [[1, 0, 0], [1, 0, 0], [1, 0, 0], [1, 0, 0]])
           (Some [[0, 1, 0, 1], [0, 1, 0, 1], [1, 0, 0, 0]]) (-1)"





text \<open>
  Annotated molecules for the single-molecule entry point: ethanol without the property
  \<open>pKa\<close>, and ethanol carrying both names of the reaction centre.
\<close>

definition ethanol_no_pKa :: mol where
  "ethanol_no_pKa = ethanol\<lparr>GetPropsAsDict := [(''marvin_atom'', PInt 2)]\<rparr>"

definition ethanol_both :: mol where
  "ethanol_both = ethanol\<lparr>GetPropsAsDict :=
     [(''pKa'', PFloat 16), (''marvin_atom'', PInt 0), (''epik_atom'', PInt 2)]\<rparr>"





section \<open>Properties of the feature width\<close>

lemma add_lens_known:
  "list_all (\<lambda>elem. map_of vals elem \<noteq> None) fl \<Longrightarrow>
   add_lens vals fl i_n = Inr (i_n + sum_list (map (domain_size vals) fl))"
  by (induction fl arbitrary: i_n) (auto simp: domain_size_def)

lemma all_node_iff:
  "list_all (\<lambda>elem. map_of (node_feat_values ext) elem \<noteq> None) fl \<longleftrightarrow>
   \<not> list_ex (edge_only ext) fl \<and> \<not> list_ex (unknown_name ext) fl"
  by (induction fl) (auto simp: edge_only_def unknown_name_def)

lemma all_edge_iff:
  "list_all (\<lambda>elem. map_of (edge_feat_values ext) elem \<noteq> None) fl \<longleftrightarrow>
   \<not> list_ex (node_only ext) fl \<and> \<not> list_ex (unknown_name ext) fl"
  by (induction fl) (auto simp: node_only_def unknown_name_def)

text \<open>
  C7. \<open>calculate_nr_of_features\<close> raises \<open>RuntimeError\<close> when the selection mixes a
  node-only name with an edge-only name or holds a name unknown to both vocabularies;
  otherwise it returns the sum of the sizes of the selected names' value domains (taken
  from the edge vocabulary when the selection holds an edge-only name, from the node
  vocabulary when it holds none).
\<close>

theorem calculate_nr_of_features_contract:
  "calculate_nr_of_features ext fl =
     (if mixes_node_and_edge ext fl \<or> list_ex (unknown_name ext) fl
      then Inl (RuntimeError [])
      else Inr (sum_list (map (domain_size (selected_vocabulary ext fl)) fl)))"
proof (cases "list_all (\<lambda>elem. map_of (node_feat_values ext) elem \<noteq> None) fl")
  case True
  then have "calculate_nr_of_features ext fl
      = Inr (sum_list (map (domain_size (node_feat_values ext)) fl))"
    by (simp add: calculate_nr_of_features_def add_lens_known)
  moreover from True have "\<not> list_ex (edge_only ext) fl" "\<not> list_ex (unknown_name ext) fl"
    unfolding all_node_iff by blast+
  ultimately show ?thesis
    by (simp add: mixes_node_and_edge_def selected_vocabulary_def)
next
  case not_node: False
  show ?thesis
  proof (cases "list_all (\<lambda>elem. map_of (edge_feat_values ext) elem \<noteq> None) fl")
    case True
    with not_node have "calculate_nr_of_features ext fl
        = Inr (sum_list (map (domain_size (edge_feat_values ext)) fl))"
      by (simp add: calculate_nr_of_features_def add_lens_known)
    moreover from True have no: "\<not> list_ex (node_only ext) fl" "\<not> list_ex (unknown_name ext) fl"
      unfolding all_edge_iff by blast+
    moreover from not_node no have "list_ex (edge_only ext) fl"
      unfolding all_node_iff by blast
    ultimately show ?thesis
      by (simp add: mixes_node_and_edge_def selected_vocabulary_def)
  next
    case False
    with not_node have "calculate_nr_of_features ext fl = Inl (RuntimeError [])"
      by (simp add: calculate_nr_of_features_def)
    moreover from False not_node
    have "mixes_node_and_edge ext fl \<or> list_ex (unknown_name ext) fl"
      unfolding mixes_node_and_edge_def all_node_iff all_edge_iff by blast
    ultimately show ?thesis by simp
  qed
qed

theorem calculate_nr_of_features_contract_witness:
  "calculate_nr_of_features ext0 [''formal_charge'', ''is_carbon''] = Inr 4
   \<and> calculate_nr_of_features ext0 [''bond_type''] = Inr 3
   \<and> calculate_nr_of_features ext0 [''formal_charge'', ''bond_type''] = Inl (RuntimeError [])
   \<and> calculate_nr_of_features ext0 [''formal_charge'', ''aromatic''] = Inl (RuntimeError [])"
  using calculate_nr_of_features_contract [of ext0 "[''formal_charge'', ''is_carbon'']"]
    calculate_nr_of_features_contract [of ext0 "[''bond_type'']"]
    calculate_nr_of_features_contract [of ext0 "[''formal_charge'', ''bond_type'']"]
    calculate_nr_of_features_contract [of ext0 "[''formal_charge'', ''aromatic'']"]
  by (simp add: ext0_def mixes_node_and_edge_def selected_vocabulary_def domain_size_def
      node_only_def edge_only_def unknown_name_def)

text \<open>
  C10. For the empty selection \<open>calculate_nr_of_features\<close> returns 0 and raises nothing,
  whatever the two vocabularies hold.
\<close>

theorem calculate_nr_of_features_empty:
  "calculate_nr_of_features ext [] = Inr 0"
  by (simp add: calculate_nr_of_features_def)

section \<open>Properties of \<open>PairData.__inc__\<close>\<close>

text \<open>
  C2. For a \<open>PairData\<close> object holding the node-feature matrices \<open>x_p\<close> and \<open>x_d\<close>, the
  increment for the key \<open>edge_index_p\<close> is the number of rows of \<open>x_p\<close> and the increment
  for \<open>edge_index_d\<close> the number of rows of \<open>x_d\<close>; the first does not depend on \<open>x_d\<close>
  nor the second on \<open>x_p\<close>, so the two sides share no counter.
\<close>

theorem PairData_inc_sides:
  "(x_p self = Some xp \<longrightarrow> PairData_inc super_inc self ''edge_index_p'' v = Inr (length xp))
   \<and> (x_d self = Some xd \<longrightarrow> PairData_inc super_inc self ''edge_index_d'' v = Inr (length xd))
   \<and> PairData_inc super_inc (self\<lparr>x_d := t\<rparr>) ''edge_index_p'' v
       = PairData_inc super_inc self ''edge_index_p'' v
   \<and> PairData_inc super_inc (self\<lparr>x_p := t\<rparr>) ''edge_index_d'' v
       = PairData_inc super_inc self ''edge_index_d'' v"
  by (simp add: PairData_inc_def)

theorem PairData_inc_sides_witness:
  "x_p pd0 = Some [[0, 1, 0, 0], [0, 1, 0, 0]]
   \<and> PairData_inc (\<lambda>self key v. Inr 0) pd0 ''edge_index_p'' () = Inr 2
   \<and> x_d pd0 = Some [[0, 1, 0, 1], [0, 1, 0, 1], [1, 0, 0, 0]]
   \<and> PairData_inc (\<lambda>self key v. Inr 0) pd0 ''edge_index_d'' () = Inr 3"
  using PairData_inc_sides [of pd0 "[[0, 1, 0, 0], [0, 1, 0, 0]]" "\<lambda>self key v. Inr 0" "()"
      "[[0, 1, 0, 1], [0, 1, 0, 1], [1, 0, 0, 0]]"]
  by (simp add: pd0_def PairData_init_def)

section \<open>Properties of the graph builder\<close>





lemma float_tensor_uniform:
  "list_all (\<lambda>r. length r = w) rows \<Longrightarrow> float_tensor ext rows = Inr (map (map (float32 ext)) rows)"
  by (cases rows) (auto simp: float_tensor_def list_all_iff)






text \<open>
  A molecule without bonds leaves \<open>edges\<close> empty, and \<open>np.hstack\<close> raises: the edge
  builder returns for no such molecule.
\<close>

theorem make_edges_and_attr_no_bonds:
  "GetBonds m = [] \<Longrightarrow>
   make_edges_and_attr ext m e_features
     = Inl (ValueError ''need at least one array to concatenate'')"
  by (simp add: make_edges_and_attr_def hstack_long_tensor_def)

theorem make_edges_and_attr_no_bonds_witness:
  "GetBonds ammonia = []
   \<and> make_edges_and_attr ext0 ammonia (EDGE_FEATURES ext0)
       = Inl (ValueError ''need at least one array to concatenate'')"
  using make_edges_and_attr_no_bonds [of ammonia ext0 "EDGE_FEATURES ext0"]
  by (simp add: ammonia_def)

lemma node_features_width:
  assumes "\<forall>(name, f)\<in>set n_features. \<exists>d. map_of vals name = Some d
             \<and> (\<exists>v. f a atom_idx = Inr v \<and> length (flatten_val v) = length d)"
  shows "\<exists>node. node_features (map snd n_features) a atom_idx = Inr node
           \<and> length (flatten node) = sum_list (map (domain_size vals) (map fst n_features))"
  using assms
proof (induction n_features)
  case Nil
  then show ?case by (simp add: flatten_def)
next
  case (Cons p n_features)
  obtain name f where p: "p = (name, f)" by (cases p)
  from Cons.prems p obtain d v where
    d: "map_of vals name = Some d" and v: "f a atom_idx = Inr v"
    and len: "length (flatten_val v) = length d"
    by auto
  from Cons obtain node where
    node: "node_features (map snd n_features) a atom_idx = Inr node" and
    w: "length (flatten node) = sum_list (map (domain_size vals) (map fst n_features))"
    by auto
  have "domain_size vals name = length d"
    using d by (simp add: domain_size_def)
  then show ?case
    using p v len node w by (simp add: flatten_def)
qed

lemma node_rows_shape:
  assumes "\<forall>a\<in>set atoms. \<exists>node. node_features feats a atom_idx = Inr node
             \<and> length (flatten node) = w"
  shows "\<exists>x. node_rows feats atoms atom_idx = Inr x \<and> length x = length atoms
           \<and> list_all (\<lambda>r. length r = w) x
           \<and> (\<forall>k<length atoms. \<exists>node. node_features feats (atoms ! k) atom_idx = Inr node
                 \<and> x ! k = flatten node)"
  using assms
proof (induction atoms)
  case Nil
  then show ?case by simp
next
  case (Cons a atoms)
  from Cons.prems obtain node where
    node: "node_features feats a atom_idx = Inr node" "length (flatten node) = w"
    by auto
  from Cons obtain x where
    x: "node_rows feats atoms atom_idx = Inr x" "length x = length atoms"
      "list_all (\<lambda>r. length r = w) x"
      "\<forall>k<length atoms. \<exists>node. node_features feats (atoms ! k) atom_idx = Inr node
          \<and> x ! k = flatten node"
    by auto
  have "\<exists>node'. node_features feats ((a # atoms) ! k) atom_idx = Inr node'
          \<and> (flatten node # x) ! k = flatten node'" if "k < length (a # atoms)" for k
    using that node x by (cases k) simp_all
  then show ?case
    using node x by simp
qed

text \<open>
  C4. Let every selected node feature be a name of the node vocabulary whose function
  returns, on each atom of the molecule, an encoding as wide as the name's value domain.
  Then \<open>make_nodes\<close> returns a matrix with one row per atom, row \<open>k\<close> being the flattened
  features of the atom at position \<open>k\<close> of the molecule's atom iteration, and every row is
  as wide as \<open>calculate_nr_of_features\<close> says for the selected names.
\<close>

theorem make_nodes_shape:
  assumes "\<forall>(name, f)\<in>set n_features. \<exists>d. map_of (node_feat_values ext) name = Some d
             \<and> (\<forall>a\<in>set (GetAtoms m). \<exists>v. f a atom_idx = Inr v
                   \<and> length (flatten_val v) = length d)"
  shows "\<exists>x w. make_nodes ext m atom_idx n_features = Inr x
           \<and> calculate_nr_of_features ext (map fst n_features) = Inr w
           \<and> length x = length (GetAtoms m)
           \<and> (\<forall>k<length (GetAtoms m).
                 length (x ! k) = w
               \<and> (\<exists>node. node_features (map snd n_features) (GetAtoms m ! k) atom_idx = Inr node
                     \<and> x ! k = map (float32 ext) (flatten node)))"
proof -
  let ?w = "sum_list (map (domain_size (node_feat_values ext)) (map fst n_features))"
  have known: "list_all (\<lambda>elem. map_of (node_feat_values ext) elem \<noteq> None) (map fst n_features)"
    using assms by (auto simp: list_all_iff)
  then have width: "calculate_nr_of_features ext (map fst n_features) = Inr ?w"
    by (simp add: calculate_nr_of_features_def add_lens_known)
  have "\<forall>a\<in>set (GetAtoms m). \<exists>node.
          node_features (map snd n_features) a atom_idx = Inr node \<and> length (flatten node) = ?w"
  proof
    fix a assume a: "a \<in> set (GetAtoms m)"
    have "\<forall>(name, f)\<in>set n_features. \<exists>d. map_of (node_feat_values ext) name = Some d
             \<and> (\<exists>v. f a atom_idx = Inr v \<and> length (flatten_val v) = length d)"
      using assms a by fast
    then show "\<exists>node. node_features (map snd n_features) a atom_idx = Inr node
                 \<and> length (flatten node) = ?w"
      by (rule node_features_width)
  qed
  from node_rows_shape [OF this] obtain x where
    x: "node_rows (map snd n_features) (GetAtoms m) atom_idx = Inr x"
      "length x = length (GetAtoms m)"
      "list_all (\<lambda>r. length r = ?w) x"
      "\<forall>k<length (GetAtoms m). \<exists>node.
          node_features (map snd n_features) (GetAtoms m ! k) atom_idx = Inr node
          \<and> x ! k = flatten node"
    by blast
  have res: "make_nodes ext m atom_idx n_features = Inr (map (map (float32 ext)) x)"
    using x(1) float_tensor_uniform [OF x(3)] by (simp add: make_nodes_def)
  have "length (map (map (float32 ext)) x ! k) = ?w
      \<and> (\<exists>node. node_features (map snd n_features) (GetAtoms m ! k) atom_idx = Inr node
            \<and> map (map (float32 ext)) x ! k = map (float32 ext) (flatten node))"
    if "k < length (GetAtoms m)" for k
  proof -
    from that x(2) have kx: "k < length x" by simp
    then have "length (x ! k) = ?w" using x(3) by (simp add: list_all_length)
    moreover from x(4) that obtain node where
      "node_features (map snd n_features) (GetAtoms m ! k) atom_idx = Inr node" "x ! k = flatten node"
      by blast
    ultimately show ?thesis using kx by simp
  qed
  with res width x(2) show ?thesis by simp
qed

lemma ethanol_nodes:
  "make_nodes ext0 ethanol (PInt 2) (NODE_FEATURES ext0)
     = Inr [[0, 1, 0, 1], [0, 1, 0, 1], [0, 1, 0, 0]]"
  by (simp add: make_nodes_def float_tensor_def flatten_def ext0_def ethanol_def
      feat_formal_charge_def feat_is_carbon_def one_hot_def)

theorem make_nodes_shape_witness:
  "make_nodes ext0 ethanol (PInt 2) (NODE_FEATURES ext0)
     = Inr [[0, 1, 0, 1], [0, 1, 0, 1], [0, 1, 0, 0]]
   \<and> calculate_nr_of_features ext0 (map fst (NODE_FEATURES ext0)) = Inr 4
   \<and> length (GetAtoms ethanol) = 3"
proof -
  have "\<forall>(name, f)\<in>set (NODE_FEATURES ext0). \<exists>d. map_of (node_feat_values ext0) name = Some d
             \<and> (\<forall>a\<in>set (GetAtoms ethanol). \<exists>v. f a (PInt 2) = Inr v
                   \<and> length (flatten_val v) = length d)"
    by (simp add: ext0_def ethanol_def feat_formal_charge_def feat_is_carbon_def one_hot_def)
  from make_nodes_shape [OF this] ethanol_nodes show ?thesis
    by (auto simp: ethanol_def)
qed

section \<open>Properties of the conjugate columns\<close>












section \<open>Properties of the single-molecule entry point\<close>

text \<open>
  C5, as the code has it. For a molecule without the property \<open>pKa\<close>,
  \<open>make_paired_pyg_data_from_mol\<close> prints the property bag (twice) and then the
  molecule's canonical SMILES string, and raises the \<open>KeyError\<close> of the lookup again:
  the identifier is in the printed output, the error itself names the missing key.
\<close>

theorem missing_pKa_prints_smiles:
  "map_of (GetPropsAsDict m) ''pKa'' = None \<Longrightarrow>
   make_paired_pyg_data_from_mol ext m selected_node_features selected_edge_features
     = ([No_pKa_found (GetPropsAsDict m), Print_props (GetPropsAsDict m),
         Print_smiles (MolToSmiles m)],
        Inl (KeyError ''pKa''))"
  by (simp add: make_paired_pyg_data_from_mol_def Let_def)

theorem missing_pKa_prints_smiles_witness:
  "map_of (GetPropsAsDict ethanol_no_pKa) ''pKa'' = None
   \<and> make_paired_pyg_data_from_mol ext0 ethanol_no_pKa (NODE_FEATURES ext0) (EDGE_FEATURES ext0)
     = ([No_pKa_found [(''marvin_atom'', PInt 2)], Print_props [(''marvin_atom'', PInt 2)],
         Print_smiles ''CCO''],
        Inl (KeyError ''pKa''))"
  using missing_pKa_prints_smiles [of ethanol_no_pKa ext0 "NODE_FEATURES ext0" "EDGE_FEATURES ext0"]
  by (simp add: ethanol_no_pKa_def ethanol_def)

text \<open>
  The claim C5 as stated fails: the message of the error raised for ethanol without
  \<open>pKa\<close> is the quoted key and does not contain the SMILES string \<open>CCO\<close>.
\<close>

theorem missing_pKa_message_counterexample:
  "snd (make_paired_pyg_data_from_mol ext0 ethanol_no_pKa (NODE_FEATURES ext0) (EDGE_FEATURES ext0))
     = Inl (KeyError ''pKa'')
   \<and> MolToSmiles ethanol_no_pKa = ''CCO''
   \<and> \<not> sublist (MolToSmiles ethanol_no_pKa) (message (KeyError ''pKa''))"
  by (simp add: make_paired_pyg_data_from_mol_def Let_def ethanol_no_pKa_def ethanol_def
      py_repr_str_def sublist_Cons_right)

text \<open>
  C8. With the property \<open>pKa\<close> present, the function goes on with the value of
  \<open>epik_atom\<close> as the reaction centre when that property is present (whatever
  \<open>marvin_atom\<close> holds), with the value of \<open>marvin_atom\<close> when only that one is present,
  and raises \<open>RuntimeError\<close> when neither is. When neither is present the function raises
  in any case.
\<close>

theorem reaction_center_lookup:
  "(map_of (GetPropsAsDict m) ''pKa'' = Some pka
      \<and> map_of (GetPropsAsDict m) ''epik_atom'' = Some i \<longrightarrow>
    make_paired_pyg_data_from_mol ext m nf ef
      = paired_data_with_center ext m (GetPropsAsDict m) pka i nf ef)
   \<and> (map_of (GetPropsAsDict m) ''pKa'' = Some pka
      \<and> map_of (GetPropsAsDict m) ''epik_atom'' = None
      \<and> map_of (GetPropsAsDict m) ''marvin_atom'' = Some i \<longrightarrow>
    make_paired_pyg_data_from_mol ext m nf ef
      = paired_data_with_center ext m (GetPropsAsDict m) pka i nf ef)
   \<and> (map_of (GetPropsAsDict m) ''pKa'' = Some pka
      \<and> map_of (GetPropsAsDict m) ''epik_atom'' = None
      \<and> map_of (GetPropsAsDict m) ''marvin_atom'' = None \<longrightarrow>
    make_paired_pyg_data_from_mol ext m nf ef
      = ([No_reaction_center (GetPropsAsDict m), Print_props (GetPropsAsDict m),
          Print_smiles (MolToSmiles m)],
         Inl (RuntimeError [])))
   \<and> (map_of (GetPropsAsDict m) ''epik_atom'' = None
      \<and> map_of (GetPropsAsDict m) ''marvin_atom'' = None \<longrightarrow>
    (\<exists>e. snd (make_paired_pyg_data_from_mol ext m nf ef) = Inl e))"
  by (auto simp: make_paired_pyg_data_from_mol_def Let_def split: option.splits)

lemma ethanol_both_center:
  "paired_data_with_center ext0 ethanol_both (GetPropsAsDict ethanol_both) (PFloat 16) (PInt 0)
     (NODE_FEATURES ext0) (EDGE_FEATURES ext0)
   = ([Mol_is_failing (AssertionError ''carbon is not ionizable'')],
      Inl (AssertionError ''carbon is not ionizable''))"
  by (simp add: paired_data_with_center_def ext0_def deprotonate_at_def GetAtomWithIdx_def
      ethanol_both_def ethanol_def)

lemma ethanol_both_charges:
  "map_sum id (\<lambda>pd. (charge_prot pd, charge_deprot pd, x_d pd))
     (snd (paired_data_with_center ext0 ethanol_both (GetPropsAsDict ethanol_both) (PFloat 16)
        (PInt 2) (NODE_FEATURES ext0) (EDGE_FEATURES ext0)))
   = Inr (0, -1, Some [[0, 1, 0, 1], [0, 1, 0, 1], [1, 0, 0, 0]])"
  by (simp add: paired_data_with_center_def ext0_def deprotonate_at_def GetAtomWithIdx_def
      ethanol_both_def ethanol_def mol_to_paired_mol_data_def mol_to_features_def
      make_nodes_def make_edges_and_attr_def hstack_long_tensor_def float_tensor_def
      flatten_def feat_formal_charge_def feat_is_carbon_def feat_bond_type_def one_hot_def
      PairData_init_def float32_scalar_def)

theorem reaction_center_lookup_witness:
  "map_of (GetPropsAsDict ethanol_both) ''pKa'' = Some (PFloat 16)
   \<and> map_of (GetPropsAsDict ethanol_both) ''epik_atom'' = Some (PInt 2)
   \<and> map_of (GetPropsAsDict ethanol_both) ''marvin_atom'' = Some (PInt 0)
   \<and> map_sum id (\<lambda>pd. (charge_prot pd, charge_deprot pd, x_d pd))
       (snd (make_paired_pyg_data_from_mol ext0 ethanol_both (NODE_FEATURES ext0)
          (EDGE_FEATURES ext0)))
     = Inr (0, -1, Some [[0, 1, 0, 1], [0, 1, 0, 1], [1, 0, 0, 0]])"
  using reaction_center_lookup [of ethanol_both "PFloat 16" "PInt 2" ext0 "NODE_FEATURES ext0"
      "EDGE_FEATURES ext0"] ethanol_both_charges
  by (simp add: ethanol_both_def ethanol_def)

section \<open>Role assignment in the two paths\<close>




section \<open>Properties of the dataset materializer\<close>















section \<open>The order of a selection\<close>

lemma update_fresh:
  "k \<notin> fst ` set al \<Longrightarrow> AList.update k v al = al @ [(k, v)]"
  by (induction al) auto

lemma features_dict_loop_distinct:
  "features_dict_loop all_features names acc = Inr d \<Longrightarrow> distinct (map fst acc @ names) \<Longrightarrow>
   d = acc @ map (\<lambda>x. (x, the (map_of all_features x))) names
   \<and> list_all (\<lambda>x. map_of all_features x \<noteq> None) names"
proof (induction names arbitrary: acc)
  case Nil
  then show ?case by simp
next
  case (Cons x names)
  from Cons.prems(1) obtain f where
    f: "map_of all_features x = Some f" and
    rest: "features_dict_loop all_features names (AList.update x f acc) = Inr d"
    by (auto split: option.splits)
  from Cons.prems(2) have fresh: "x \<notin> fst ` set acc"
    by auto
  then have upd: "AList.update x f acc = acc @ [(x, f)]"
    by (rule update_fresh)
  from Cons.prems(2) have "distinct (map fst (acc @ [(x, f)]) @ names)"
    by auto
  from Cons.IH [OF rest [unfolded upd] this] f show ?case by simp
qed

text \<open>
  A selection of distinct names keeps the order of the names: the dict that
  \<open>make_features_dicts\<close> returns lists the names as given, each with its entry of the
  registry. (A name given twice is one key of the dict.)
\<close>

theorem make_features_dicts_order:
  assumes "make_features_dicts all_features names = Inr d" and "distinct names"
  shows "map fst d = names
    \<and> d = map (\<lambda>x. (x, the (map_of all_features x))) names
    \<and> list_all (\<lambda>x. map_of all_features x \<noteq> None) names"
proof -
  from assms have "d = [] @ map (\<lambda>x. (x, the (map_of all_features x))) names
      \<and> list_all (\<lambda>x. map_of all_features x \<noteq> None) names"
    unfolding make_features_dicts_def by (intro features_dict_loop_distinct) simp_all
  then show ?thesis by (simp add: comp_def)
qed

theorem make_features_dicts_order_witness:
  "make_features_dicts (NODE_FEATURES ext0) [''is_carbon'', ''formal_charge'']
     = Inr [(''is_carbon'', feat_is_carbon), (''formal_charge'', feat_formal_charge)]
   \<and> distinct [''is_carbon'', ''formal_charge'']
   \<and> make_features_dicts (NODE_FEATURES ext0) [''is_carbon'', ''formal_charge'', ''is_carbon'']
     = Inr [(''is_carbon'', feat_is_carbon), (''formal_charge'', feat_formal_charge)]"
proof -
  have d: "make_features_dicts (NODE_FEATURES ext0) [''is_carbon'', ''formal_charge'']
     = Inr [(''is_carbon'', feat_is_carbon), (''formal_charge'', feat_formal_charge)]"
    by (simp add: make_features_dicts_def ext0_def)
  have "make_features_dicts (NODE_FEATURES ext0) [''is_carbon'', ''formal_charge'', ''is_carbon'']
     = Inr [(''is_carbon'', feat_is_carbon), (''formal_charge'', feat_formal_charge)]"
    by (simp add: make_features_dicts_def ext0_def)
  with make_features_dicts_order [OF d] d show ?thesis by simp
qed

end
